theory Spec2Isabelle
  imports Main "HOL-Library.Word"
begin

section \<open>Scan actions of the UI (ui/actions/scans/scans.ts)\<close>

text \<open>
  The file exports eight asynchronous server actions. Each one asks the auth collaborator
  for request headers, builds a URL, calls \<^verbatim>\<open>fetch\<close> once at most, and returns a
  JavaScript value. The calls an action makes to its collaborators are recorded in a
  trace, in the order the source makes them; how the call ends is its outcome: a
  returned value, the control transfer of \<^verbatim>\<open>redirect\<close>, or an uncaught error.
\<close>

subsection \<open>JSON documents and JavaScript values\<close>

text \<open>
  A parsed JSON document. A number is kept as the text that JavaScript's number-to-string
  conversion gives for it (zero is \<open>''0''\<close>); an object is the list of its own
  properties, one pair for each key. The value \<^verbatim>\<open>undefined\<close> is not a JSON
  value: a JavaScript value that may be undefined is a \<open>json option\<close>, with \<open>None\<close>
  for \<^verbatim>\<open>undefined\<close>.
\<close>

datatype json =
    JNull
  | JBool bool
  | JNum string
  | JStr string
  | JArr "json list"
  | JObj "(string \<times> json) list"

type_synonym jsval = "json option"

text \<open>
  The errors the actions can catch are all instances of \<^verbatim>\<open>Error\<close>; the constructor
  keeps the class and the message.
\<close>

datatype js_error =
    Error string
  | TypeError string
  | SyntaxError string

text \<open>
  Modelled from the spec: \<^verbatim>\<open>getErrorMessage\<close> is imported from \<^verbatim>\<open>@/lib\<close>, which is
  not among the sources. The spec says that the error message is surfaced; for an
  instance of \<^verbatim>\<open>Error\<close> that is its \<^verbatim>\<open>message\<close>.
\<close>

fun getErrorMessage :: "js_error \<Rightarrow> string" where
  "getErrorMessage (Error m) = m"
| "getErrorMessage (TypeError m) = m"
| "getErrorMessage (SyntaxError m) = m"

text \<open>
  Modelled from the spec: \<^verbatim>\<open>parseStringify\<close> is imported from \<^verbatim>\<open>@/lib\<close>, which is
  not among the sources. The spec calls it a deep copy of the JSON value with no schema
  validation; on a value that \<^verbatim>\<open>response.json()\<close> produced the copy is the value.
\<close>

definition parseStringify :: "json \<Rightarrow> json" where
  "parseStringify data = data"

subsection \<open>Collaborators\<close>

type_synonym byte = "8 word"

text \<open>
  A response of the transport. Its body can be consumed once, by \<^verbatim>\<open>json()\<close> or by
  \<^verbatim>\<open>arrayBuffer()\<close>; the record holds what each of the two would give: the
  value on the right, or on the left the error the promise rejects with.
\<close>

record response =
  status :: nat
  statusText :: string
  json_result :: "js_error + json"
  arrayBuffer_result :: "js_error + byte list"

definition ok :: "response \<Rightarrow> bool" where
  "ok r \<longleftrightarrow> 200 \<le> status r \<and> status r \<le> 299"

text \<open>
  A \<^verbatim>\<open>URL\<close> object: the text it was constructed from, and the pairs appended to its
  \<^verbatim>\<open>searchParams\<close> since, in order. \<open>new_URL\<close> is the constructor on a text that
  parses; its \<^verbatim>\<open>TypeError\<close> on any other text is the \<open>url_fault\<close> of a host, below.
\<close>

record url =
  href :: string
  searchParams :: "(string \<times> string) list"

definition new_URL :: "string \<Rightarrow> url" where
  "new_URL s = \<lparr>href = s, searchParams = []\<rparr>"

definition append_param :: "url \<Rightarrow> string \<Rightarrow> string \<Rightarrow> url" where
  "append_param u k v = u\<lparr>searchParams := searchParams u @ [(k, v)]\<rparr>"

text \<open>
  A call of \<^verbatim>\<open>fetch\<close>: the URL, the method (\<open>''GET''\<close> when the source gives none),
  the headers, and the JSON value whose serialisation is the body.
\<close>

record request =
  req_url :: url
  req_method :: string
  req_headers :: "(string \<times> string) list"
  req_body :: "json option"

datatype fetch_result = Rejected js_error | Resolved response

text \<open>
  What the module takes from its environment: the base URL and the auth collaborator
  of \<^verbatim>\<open>@/lib\<close> (the argument of \<open>getAuthHeaders\<close> is its \<^verbatim>\<open>contentType\<close> flag),
  the transport, and the message the engine gives the \<^verbatim>\<open>TypeError\<close> of reading a
  property (named by the argument) of \<^verbatim>\<open>undefined\<close> or \<^verbatim>\<open>null\<close>.
\<close>

record runtime =
  apiBaseUrl :: string
  getAuthHeaders :: "bool \<Rightarrow> (string \<times> string) list"
  fetch :: "request \<Rightarrow> fetch_result"
  cannotRead :: "string \<Rightarrow> string"

datatype event =
    AuthHeaders bool
  | Fetch request
  | RevalidatePath string
  | ConsoleError

text \<open>The values the actions return.\<close>

datatype result =
    Data json \<comment> \<open>\<^verbatim>\<open>parseStringify(data)\<close>\<close>
  | Undefined \<comment> \<open>\<^verbatim>\<open>undefined\<close>\<close>
  | ErrorObj string \<comment> \<open>\<^verbatim>\<open>{ error }\<close>\<close>
  | FailureObj jsval \<comment> \<open>\<^verbatim>\<open>{ success: false, error }\<close>\<close>
  | PendingObj jsval jsval \<comment> \<open>\<^verbatim>\<open>{ pending: true, state, taskId }\<close>\<close>
  | ReadyObj string string \<comment> \<open>\<^verbatim>\<open>{ success: true, data, filename }\<close>\<close>

text \<open>
  How a call of an action ends: it returns a value, or \<^verbatim>\<open>redirect\<close> takes control
  away, or an error leaves the action uncaught.
\<close>

datatype outcome = Returned result | Redirected string | Threw js_error

subsection \<open>Property access\<close>

text \<open>
  Reading a named property of a value that is neither \<^verbatim>\<open>null\<close> nor
  \<^verbatim>\<open>undefined\<close>. The names the source reads (\<^verbatim>\<open>data\<close>, \<^verbatim>\<open>id\<close>,
  \<^verbatim>\<open>attributes\<close>, \<^verbatim>\<open>state\<close>, \<^verbatim>\<open>errors\<close>, \<^verbatim>\<open>detail\<close>, \<^verbatim>\<open>message\<close>) are
  properties of no array, string, number or boolean.
\<close>

fun get_prop :: "json \<Rightarrow> string \<Rightarrow> jsval" where
  "get_prop (JObj kvs) k = map_of kvs k"
| "get_prop _ k = None"

text \<open>Reading index \<^verbatim>\<open>0\<close> of such a value.\<close>

fun get_index0 :: "json \<Rightarrow> jsval" where
  "get_index0 (JArr xs) = (case xs of [] \<Rightarrow> None | x # _ \<Rightarrow> Some x)"
| "get_index0 (JStr s) = (case s of [] \<Rightarrow> None | c # _ \<Rightarrow> Some (JStr [c]))"
| "get_index0 (JObj kvs) = map_of kvs ''0''"
| "get_index0 _ = None"

text \<open>\<^verbatim>\<open>v.k\<close>: a \<^verbatim>\<open>TypeError\<close> when \<open>v\<close> is \<^verbatim>\<open>null\<close> or \<^verbatim>\<open>undefined\<close>.\<close>

definition member :: "runtime \<Rightarrow> jsval \<Rightarrow> string \<Rightarrow> js_error + jsval" where
  "member rt v k =
     (case v of
        None \<Rightarrow> Inl (TypeError (cannotRead rt k))
      | Some JNull \<Rightarrow> Inl (TypeError (cannotRead rt k))
      | Some j \<Rightarrow> Inr (get_prop j k))"

text \<open>\<^verbatim>\<open>v[0]\<close>, likewise.\<close>

definition member0 :: "runtime \<Rightarrow> jsval \<Rightarrow> js_error + jsval" where
  "member0 rt v =
     (case v of
        None \<Rightarrow> Inl (TypeError (cannotRead rt ''0''))
      | Some JNull \<Rightarrow> Inl (TypeError (cannotRead rt ''0''))
      | Some j \<Rightarrow> Inr (get_index0 j))"

text \<open>\<^verbatim>\<open>v?.k\<close>: \<^verbatim>\<open>undefined\<close> when \<open>v\<close> is \<^verbatim>\<open>null\<close> or \<^verbatim>\<open>undefined\<close>.\<close>

definition opt_member :: "jsval \<Rightarrow> string \<Rightarrow> jsval" where
  "opt_member v k =
     (case v of
        None \<Rightarrow> None
      | Some JNull \<Rightarrow> None
      | Some j \<Rightarrow> get_prop j k)"

subsection \<open>Form data\<close>

text \<open>
  A \<^verbatim>\<open>FormData\<close> of text entries; \<^verbatim>\<open>get\<close> gives the first value of a name, or
  \<^verbatim>\<open>null\<close> (here \<open>None\<close>).
\<close>

type_synonym formData = "(string \<times> string) list"

definition formData_get :: "formData \<Rightarrow> string \<Rightarrow> string option" where
  "formData_get fd k = map_of fd k"

text \<open>A form value inside a template literal: \<^verbatim>\<open>null\<close> prints as \<open>''null''\<close>.\<close>

definition template :: "string option \<Rightarrow> string" where
  "template v = (case v of None \<Rightarrow> ''null'' | Some s \<Rightarrow> s)"

text \<open>A form value inside a request body.\<close>

definition json_of :: "string option \<Rightarrow> json" where
  "json_of v = (case v of None \<Rightarrow> JNull | Some s \<Rightarrow> JStr s)"

text \<open>The truth value of a form value: \<^verbatim>\<open>null\<close> and the empty string are falsy.\<close>

definition truthy_str :: "string option \<Rightarrow> bool" where
  "truthy_str v \<longleftrightarrow> v \<noteq> None \<and> v \<noteq> Some []"

subsection \<open>try and catch\<close>

text \<open>
  A block of statements gives its trace and either the error it threw or the value it
  returned. The handler of a \<^verbatim>\<open>catch\<close> is such a block too: it extends the trace,
  and it returns or throws in its turn.
\<close>

type_synonym block = "event list \<times> (js_error + result)"

definition try_catch :: "block \<Rightarrow> (js_error \<Rightarrow> block) \<Rightarrow> block" where
  "try_catch body handler =
     (case body of
        (tr, Inr v) \<Rightarrow> (tr, Inr v)
      | (tr, Inl e) \<Rightarrow> (tr @ fst (handler e), snd (handler e)))"

text \<open>
  The end of an action whose last statement is the block \<open>b\<close>, after the calls \<open>pre\<close>:
  what the block throws leaves the action.
\<close>

definition finish :: "event list \<Rightarrow> block \<Rightarrow> event list \<times> outcome" where
  "finish pre b =
     (pre @ fst b, (case snd b of Inl e \<Rightarrow> Threw e | Inr v \<Rightarrow> Returned v))"

subsection \<open>Truth values and text of JavaScript values\<close>

text \<open>The values that count as false in a condition or on the left of \<^verbatim>\<open>||\<close>.\<close>

fun truthy_json :: "json \<Rightarrow> bool" where
  "truthy_json JNull = False"
| "truthy_json (JBool b) = b"
| "truthy_json (JNum s) = (s \<noteq> ''0'')"
| "truthy_json (JStr s) = (s \<noteq> [])"
| "truthy_json (JArr _) = True"
| "truthy_json (JObj _) = True"

fun join_comma :: "string list \<Rightarrow> string" where
  "join_comma [] = []"
| "join_comma [s] = s"
| "join_comma (s # t # ss) = s @ '','' @ join_comma (t # ss)"

text \<open>
  The conversion to a string that \<^verbatim>\<open>new Error(v)\<close> applies to its argument. An
  array joins its elements with commas, \<^verbatim>\<open>null\<close> elements as empty text.
\<close>

fun to_string :: "json \<Rightarrow> string" where
  "to_string JNull = ''null''"
| "to_string (JBool b) = (if b then ''true'' else ''false'')"
| "to_string (JNum s) = s"
| "to_string (JStr s) = s"
| "to_string (JArr xs) = join_comma (map (\<lambda>x. if x = JNull then [] else to_string x) xs)"
| "to_string (JObj _) = ''[object Object]''"

text \<open>The message of \<^verbatim>\<open>new Error(v || fallback)\<close>.\<close>

definition message_or :: "jsval \<Rightarrow> string \<Rightarrow> string" where
  "message_or v fallback =
     (case v of
        None \<Rightarrow> fallback
      | Some j \<Rightarrow> if truthy_json j then to_string j else fallback)"

subsection \<open>Numbers of the list query\<close>

text \<open>
  The page and the page size are JavaScript numbers. The model has the integers and
  \<^verbatim>\<open>NaN\<close>, the values that \<^verbatim>\<open>parseInt\<close> gives; \<open>num_toString\<close> writes an
  integer in decimal, as \<^verbatim>\<open>toString()\<close> does for an integer of fewer than 22 digits.
\<close>

datatype jsnum = NaN | Num int

definition isNaN :: "jsnum \<Rightarrow> bool" where
  "isNaN n \<longleftrightarrow> n = NaN"

text \<open>\<^verbatim>\<open>n < 1\<close>: false for \<^verbatim>\<open>NaN\<close>.\<close>

definition less_than_1 :: "jsnum \<Rightarrow> bool" where
  "less_than_1 n = (case n of NaN \<Rightarrow> False | Num i \<Rightarrow> i < 1)"

definition truthy_num :: "jsnum \<Rightarrow> bool" where
  "truthy_num n = (case n of NaN \<Rightarrow> False | Num i \<Rightarrow> i \<noteq> 0)"

fun show_nat :: "nat \<Rightarrow> string" where
  "show_nat n =
     (if n < 10 then [''0123456789'' ! n]
      else show_nat (n div 10) @ [''0123456789'' ! (n mod 10)])"

declare show_nat.simps [simp del]

definition num_toString :: "jsnum \<Rightarrow> string" where
  "num_toString n =
     (case n of
        NaN \<Rightarrow> ''NaN''
      | Num i \<Rightarrow> if i < 0 then ''-'' @ show_nat (nat (- i)) else show_nat (nat i))"

subsection \<open>getScans\<close>

text \<open>
  The argument object of \<open>getScans\<close>; a property the caller leaves out is \<open>None\<close>
  and takes the default of the parameter list. The two mappings are lists of entries
  in the order \<^verbatim>\<open>Object.entries\<close> gives them; their values are strings, which
  \<^verbatim>\<open>String(value)\<close> leaves as they are.
\<close>

record scans_args =
  page_arg :: "jsnum option"
  query_arg :: "string option"
  sort_arg :: "string option"
  filters_arg :: "(string \<times> string) list option"
  pageSize_arg :: "jsnum option"
  fields_arg :: "(string \<times> string) list option"
  include_arg :: "string option"

definition default_to :: "'a \<Rightarrow> 'a option \<Rightarrow> 'a" where
  "default_to d v = (case v of None \<Rightarrow> d | Some x \<Rightarrow> x)"

definition getScans_url ::
  "runtime \<Rightarrow> jsnum \<Rightarrow> string \<Rightarrow> string \<Rightarrow> (string \<times> string) list \<Rightarrow> jsnum \<Rightarrow>
   (string \<times> string) list \<Rightarrow> string \<Rightarrow> url" where
  "getScans_url rt page query sortBy filters pageSize flds incl =
     (let u0 = new_URL (apiBaseUrl rt @ ''/scans'');
          u1 = (if truthy_num page then append_param u0 ''page[number]'' (num_toString page) else u0);
          u2 = (if truthy_num pageSize then append_param u1 ''page[size]'' (num_toString pageSize) else u1);
          u3 = (if query \<noteq> [] then append_param u2 ''filter[search]'' query else u2);
          u4 = (if sortBy \<noteq> [] then append_param u3 ''sort'' sortBy else u3);
          u5 = (if incl \<noteq> [] then append_param u4 ''include'' incl else u4);
          u6 = foldl (\<lambda>u (key, v). append_param u (''fields['' @ key @ '']'') v) u5 flds
      in foldl (\<lambda>u (key, v). append_param u key v) u6 filters)"

definition getScans_request :: "runtime \<Rightarrow> scans_args \<Rightarrow> request" where
  "getScans_request rt args =
     \<lparr>req_url = getScans_url rt
        (default_to (Num 1) (page_arg args))
        (default_to [] (query_arg args))
        (default_to [] (sort_arg args))
        (default_to [] (filters_arg args))
        (default_to (Num 10) (pageSize_arg args))
        (default_to [] (fields_arg args))
        (default_to [] (include_arg args)),
      req_method = ''GET'',
      req_headers = getAuthHeaders rt False,
      req_body = None\<rparr>"

definition getScans :: "runtime \<Rightarrow> scans_args \<Rightarrow> event list \<times> outcome" where
  "getScans rt args =
     (let page = default_to (Num 1) (page_arg args);
          req = getScans_request rt args
      in if isNaN page \<or> less_than_1 page
         then ([AuthHeaders False], Redirected ''/scans'')
         else finish [AuthHeaders False]
           (try_catch
              (case fetch rt req of
                 Rejected e \<Rightarrow> ([Fetch req], Inl e)
               | Resolved resp \<Rightarrow>
                   (case json_result resp of
                      Inl e \<Rightarrow> ([Fetch req], Inl e)
                    | Inr data \<Rightarrow>
                        ([Fetch req, RevalidatePath ''/scans''], Inr (Data (parseStringify data)))))
              (\<lambda>error. ([ConsoleError], Inr Undefined))))"

subsection \<open>getScansByState\<close>




subsection \<open>getScan\<close>



subsection \<open>scanOnDemand\<close>

definition scanOnDemand_body :: "string option \<Rightarrow> string option \<Rightarrow> json" where
  "scanOnDemand_body providerId scanName =
     JObj [(''data'', JObj
       [(''type'', JStr ''scans''),
        (''attributes'',
           (case scanName of Some n \<Rightarrow> JObj [(''name'', JStr n)] | None \<Rightarrow> JObj [])),
        (''relationships'', JObj
           [(''provider'', JObj
              [(''data'', JObj [(''type'', JStr ''providers''), (''id'', json_of providerId)])])])])]"

definition scanOnDemand_request :: "runtime \<Rightarrow> formData \<Rightarrow> request" where
  "scanOnDemand_request rt fd =
     (let providerId = formData_get fd ''providerId'';
          scanName = (if truthy_str (formData_get fd ''scanName'')
                      then formData_get fd ''scanName'' else None)
      in \<lparr>req_url = new_URL (apiBaseUrl rt @ ''/scans''),
          req_method = ''POST'',
          req_headers = getAuthHeaders rt True,
          req_body = Some (scanOnDemand_body providerId scanName)\<rparr>)"

definition scanOnDemand :: "runtime \<Rightarrow> formData \<Rightarrow> event list \<times> outcome" where
  "scanOnDemand rt fd =
     (let providerId = formData_get fd ''providerId'';
          req = scanOnDemand_request rt fd
      in if \<not> truthy_str providerId
         then ([AuthHeaders True], Returned (ErrorObj ''Provider ID is required''))
         else finish [AuthHeaders True]
           (try_catch
              (case fetch rt req of
                 Rejected e \<Rightarrow> ([Fetch req], Inl e)
               | Resolved resp \<Rightarrow>
                   (if \<not> ok resp then
                      (case json_result resp of
                         Inl e \<Rightarrow> ([Fetch req], Inl e)
                       | Inr errorData \<Rightarrow>
                           (case member rt (Some errorData) ''errors'' of
                              Inl e \<Rightarrow> ([Fetch req], Inl e)
                            | Inr errors \<Rightarrow>
                                (case member0 rt errors of
                                   Inl e \<Rightarrow> ([Fetch req], Inl e)
                                 | Inr first \<Rightarrow>
                                     (case member rt first ''detail'' of
                                        Inl e \<Rightarrow> ([Fetch req], Inl e)
                                      | Inr detail \<Rightarrow> ([Fetch req], Inr (FailureObj detail))))))
                    else
                      (case json_result resp of
                         Inl e \<Rightarrow> ([Fetch req], Inl e)
                       | Inr data \<Rightarrow>
                           ([Fetch req, RevalidatePath ''/scans''], Inr (Data (parseStringify data))))))
              (\<lambda>error. ([ConsoleError], Inr (ErrorObj (getErrorMessage error))))))"

subsection \<open>scheduleDaily\<close>

definition scheduleDaily_request :: "runtime \<Rightarrow> formData \<Rightarrow> request" where
  "scheduleDaily_request rt fd =
     \<lparr>req_url = new_URL (apiBaseUrl rt @ ''/schedules/daily''),
      req_method = ''POST'',
      req_headers = getAuthHeaders rt True,
      req_body = Some (JObj [(''data'', JObj
        [(''type'', JStr ''daily-schedules''),
         (''attributes'', JObj [(''provider_id'', json_of (formData_get fd ''providerId''))])])])\<rparr>"

definition scheduleDaily :: "runtime \<Rightarrow> formData \<Rightarrow> event list \<times> outcome" where
  "scheduleDaily rt fd =
     (let req = scheduleDaily_request rt fd
      in finish [AuthHeaders True]
           (try_catch
              (case fetch rt req of
                 Rejected e \<Rightarrow> ([Fetch req], Inl e)
               | Resolved resp \<Rightarrow>
                   (if \<not> ok resp
                    then ([Fetch req], Inl (Error (''Failed to schedule daily: '' @ statusText resp)))
                    else
                      (case json_result resp of
                         Inl e \<Rightarrow> ([Fetch req], Inl e)
                       | Inr data \<Rightarrow>
                           ([Fetch req, RevalidatePath ''/scans''], Inr (Data (parseStringify data))))))
              (\<lambda>error. ([ConsoleError], Inr (ErrorObj (getErrorMessage error))))))"

subsection \<open>updateScan\<close>

definition updateScan_request :: "runtime \<Rightarrow> formData \<Rightarrow> request" where
  "updateScan_request rt fd =
     (let scanId = formData_get fd ''scanId'';
          scanName = formData_get fd ''scanName''
      in \<lparr>req_url = new_URL (apiBaseUrl rt @ ''/scans/'' @ template scanId),
          req_method = ''PATCH'',
          req_headers = getAuthHeaders rt True,
          req_body = Some (JObj [(''data'', JObj
            [(''type'', JStr ''scans''),
             (''id'', json_of scanId),
             (''attributes'', JObj [(''name'', json_of scanName)])])])\<rparr>)"

definition updateScan :: "runtime \<Rightarrow> formData \<Rightarrow> event list \<times> outcome" where
  "updateScan rt fd =
     (let req = updateScan_request rt fd
      in finish [AuthHeaders True]
           (try_catch
              (case fetch rt req of
                 Rejected e \<Rightarrow> ([Fetch req], Inl e)
               | Resolved resp \<Rightarrow>
                   (case json_result resp of
                      Inl e \<Rightarrow> ([Fetch req], Inl e)
                    | Inr data \<Rightarrow>
                        ([Fetch req, RevalidatePath ''/scans''], Inr (Data (parseStringify data)))))
              (\<lambda>error. ([ConsoleError], Inr (ErrorObj (getErrorMessage error))))))"

subsection \<open>Base64\<close>

text \<open>
  \<^verbatim>\<open>Buffer.from(arrayBuffer).toString("base64")\<close> is the platform's encoder: the
  standard alphabet, three bytes to four characters, \<open>=\<close> padding the last group. The
  decoder is the standard inverse, the one a caller applies to the text.
\<close>

definition base64_alphabet :: string where
  "base64_alphabet = ''ABCDEFGHIJKLMNOPQRSTUVWXYZabcdefghijklmnopqrstuvwxyz0123456789+/''"

definition enc6 :: "nat \<Rightarrow> char" where
  "enc6 n = base64_alphabet ! n"

fun index_of :: "'a \<Rightarrow> 'a list \<Rightarrow> nat option" where
  "index_of x [] = None"
| "index_of x (y # ys) = (if x = y then Some 0 else map_option Suc (index_of x ys))"

definition dec6 :: "char \<Rightarrow> nat option" where
  "dec6 c = index_of c base64_alphabet"

fun base64 :: "byte list \<Rightarrow> string" where
  "base64 [] = []"
| "base64 [a] =
     [enc6 (unat a div 4), enc6 (unat a mod 4 * 16), CHR ''='', CHR ''='']"
| "base64 [a, b] =
     [enc6 (unat a div 4), enc6 (unat a mod 4 * 16 + unat b div 16),
      enc6 (unat b mod 16 * 4), CHR ''='']"
| "base64 (a # b # c # rest) =
     [enc6 (unat a div 4), enc6 (unat a mod 4 * 16 + unat b div 16),
      enc6 (unat b mod 16 * 4 + unat c div 64), enc6 (unat c mod 64)] @ base64 rest"

text \<open>A group of four characters without padding gives three bytes.\<close>

definition decode_group :: "char \<Rightarrow> char \<Rightarrow> char \<Rightarrow> char \<Rightarrow> byte list option" where
  "decode_group w x y z =
     (case (dec6 w, dec6 x, dec6 y, dec6 z) of
        (Some s1, Some s2, Some s3, Some s4) \<Rightarrow>
          Some [of_nat (s1 * 4 + s2 div 16),
                of_nat (s2 mod 16 * 16 + s3 div 4),
                of_nat (s3 mod 4 * 64 + s4)]
      | _ \<Rightarrow> None)"

text \<open>The last group may end in one or two padding characters.\<close>

definition decode_last :: "char \<Rightarrow> char \<Rightarrow> char \<Rightarrow> char \<Rightarrow> byte list option" where
  "decode_last w x y z =
     (if y = CHR ''='' \<and> z = CHR ''='' then
        (case (dec6 w, dec6 x) of
           (Some s1, Some s2) \<Rightarrow> Some [of_nat (s1 * 4 + s2 div 16)]
         | _ \<Rightarrow> None)
      else if z = CHR ''='' then
        (case (dec6 w, dec6 x, dec6 y) of
           (Some s1, Some s2, Some s3) \<Rightarrow>
             Some [of_nat (s1 * 4 + s2 div 16), of_nat (s2 mod 16 * 16 + s3 div 4)]
         | _ \<Rightarrow> None)
      else decode_group w x y z)"

fun base64_decode :: "string \<Rightarrow> byte list option" where
  "base64_decode [] = Some []"
| "base64_decode (w # x # y # z # rest) =
     (if rest = [] then decode_last w x y z
      else (case decode_group w x y z of
              None \<Rightarrow> None
            | Some g \<Rightarrow> map_option ((@) g) (base64_decode rest)))"
| "base64_decode _ = None"

subsection \<open>getExportsZip\<close>

definition getExportsZip_request :: "runtime \<Rightarrow> string \<Rightarrow> request" where
  "getExportsZip_request rt scanId =
     \<lparr>req_url = new_URL (apiBaseUrl rt @ ''/scans/'' @ scanId @ ''/report''),
      req_method = ''GET'',
      req_headers = getAuthHeaders rt False,
      req_body = None\<rparr>"

definition getExportsZip :: "runtime \<Rightarrow> string \<Rightarrow> event list \<times> outcome" where
  "getExportsZip rt scanId =
     (let req = getExportsZip_request rt scanId
      in finish [AuthHeaders False]
           (try_catch
              (case fetch rt req of
                 Rejected e \<Rightarrow> ([Fetch req], Inl e)
               | Resolved resp \<Rightarrow>
                   (if status resp = 202 then
                      (case json_result resp of
                         Inl e \<Rightarrow> ([Fetch req], Inl e)
                       | Inr j \<Rightarrow>
                           (let taskId = opt_member (opt_member (Some j) ''data'') ''id'';
                                state = opt_member
                                  (opt_member (opt_member (Some j) ''data'') ''attributes'') ''state''
                            in ([Fetch req], Inr (PendingObj state taskId))))
                    else if \<not> ok resp then
                      (case json_result resp of
                         Inl e \<Rightarrow> ([Fetch req], Inl e)
                       | Inr errorData \<Rightarrow>
                           ([Fetch req], Inl (Error (message_or
                              (opt_member (opt_member (Some errorData) ''errors'') ''detail'')
                              ''Unable to fetch scan report. Contact support if the issue continues.''))))
                    else
                      (case arrayBuffer_result resp of
                         Inl e \<Rightarrow> ([Fetch req], Inl e)
                       | Inr arrayBuffer \<Rightarrow>
                           ([Fetch req],
                            Inr (ReadyObj (base64 arrayBuffer) (''scan-'' @ scanId @ ''-report.zip''))))))
              (\<lambda>error. ([], Inr (ErrorObj (getErrorMessage error))))))"

subsection \<open>getComplianceCsv\<close>

definition getComplianceCsv_request :: "runtime \<Rightarrow> string \<Rightarrow> string \<Rightarrow> request" where
  "getComplianceCsv_request rt scanId complianceId =
     \<lparr>req_url = new_URL (apiBaseUrl rt @ ''/scans/'' @ scanId @ ''/compliance/'' @ complianceId),
      req_method = ''GET'',
      req_headers = getAuthHeaders rt False,
      req_body = None\<rparr>"

definition getComplianceCsv :: "runtime \<Rightarrow> string \<Rightarrow> string \<Rightarrow> event list \<times> outcome" where
  "getComplianceCsv rt scanId complianceId =
     (let req = getComplianceCsv_request rt scanId complianceId
      in finish [AuthHeaders False]
           (try_catch
              (case fetch rt req of
                 Rejected e \<Rightarrow> ([Fetch req], Inl e)
               | Resolved resp \<Rightarrow>
                   (if status resp = 202 then
                      (case json_result resp of
                         Inl e \<Rightarrow> ([Fetch req], Inl e)
                       | Inr j \<Rightarrow>
                           (let taskId = opt_member (opt_member (Some j) ''data'') ''id'';
                                state = opt_member
                                  (opt_member (opt_member (Some j) ''data'') ''attributes'') ''state''
                            in ([Fetch req], Inr (PendingObj state taskId))))
                    else if \<not> ok resp then
                      (case json_result resp of
                         Inl e \<Rightarrow> ([Fetch req], Inl e)
                       | Inr errorData \<Rightarrow>
                           ([Fetch req], Inl (Error (message_or
                              (opt_member (opt_member (Some errorData) ''errors'') ''detail'')
                              ''Unable to retrieve compliance report. Contact support if the issue continues.''))))
                    else
                      (case arrayBuffer_result resp of
                         Inl e \<Rightarrow> ([Fetch req], Inl e)
                       | Inr arrayBuffer \<Rightarrow>
                           ([Fetch req],
                            Inr (ReadyObj (base64 arrayBuffer)
                                   (''scan-'' @ scanId @ ''-compliance-'' @ complianceId @ ''.csv''))))))
              (\<lambda>error. ([], Inr (ErrorObj (getErrorMessage error))))))"

subsection \<open>The statements before the try\<close>











subsection \<open>Observations on traces and results\<close>

definition is_fetch :: "event \<Rightarrow> bool" where
  "is_fetch e = (case e of Fetch _ \<Rightarrow> True | _ \<Rightarrow> False)"

definition is_revalidate :: "event \<Rightarrow> bool" where
  "is_revalidate e = (case e of RevalidatePath _ \<Rightarrow> True | _ \<Rightarrow> False)"

text \<open>The three shapes an artifact action returns: ready, pending, failed.\<close>

definition is_artifact_result :: "outcome \<Rightarrow> bool" where
  "is_artifact_result out =
     (case out of
        Returned (ReadyObj _ _) \<Rightarrow> True
      | Returned (PendingObj _ _) \<Rightarrow> True
      | Returned (ErrorObj _) \<Rightarrow> True
      | _ \<Rightarrow> False)"

text \<open>A JavaScript value that is a string.\<close>

definition is_string :: "jsval \<Rightarrow> bool" where
  "is_string v = (case v of Some (JStr _) \<Rightarrow> True | _ \<Rightarrow> False)"


subsection \<open>An example environment\<close>

text \<open>
  A runtime whose transport answers every request in the same way; the examples below
  run the actions in it.
\<close>

definition example_runtime :: "fetch_result \<Rightarrow> runtime" where
  "example_runtime answer =
     \<lparr>apiBaseUrl = ''https://api.example.test/api/v1'',
      getAuthHeaders = (\<lambda>contentType.
        (''Accept'', ''application/vnd.api+json'') #
        (if contentType then [(''Content-Type'', ''application/vnd.api+json'')] else [])),
      fetch = (\<lambda>_. answer),
      cannotRead = (\<lambda>k. ''Cannot read properties of undefined (reading '' @ k @ '')'')\<rparr>"

definition example_response :: "nat \<Rightarrow> string \<Rightarrow> json \<Rightarrow> response" where
  "example_response code text doc =
     \<lparr>status = code, statusText = text, json_result = Inr doc,
      arrayBuffer_result = Inr []\<rparr>"

definition not_found_body :: json where
  "not_found_body = JObj [(''errors'', JArr [JObj [(''detail'', JStr ''not found'')]])]"

definition bad_request_body :: json where
  "bad_request_body = JObj [(''errors'', JArr [JObj [(''detail'', JStr ''bad'')]])]"

definition task_body :: json where
  "task_body =
     JObj [(''data'', JObj [(''id'', JStr ''t1''), (''attributes'', JObj [(''state'', JStr ''running'')])])]"

definition example_form :: formData where
  "example_form = [(''providerId'', ''provider-1''), (''scanId'', ''scan1''), (''scanName'', ''nightly'')]"

text \<open>The argument object \<^verbatim>\<open>{}\<close>: every parameter takes its default.\<close>

definition no_args :: scans_args where
  "no_args =
     \<lparr>page_arg = None, query_arg = None, sort_arg = None, filters_arg = None,
      pageSize_arg = None, fields_arg = None, include_arg = None\<rparr>"




section \<open>Properties\<close>

subsection \<open>Base64 round trip\<close>

lemma index_of_nth: "distinct xs \<Longrightarrow> n < length xs \<Longrightarrow> index_of (xs ! n) xs = Some n"
proof (induction xs arbitrary: n)
  case Nil
  then show ?case by simp
next
  case (Cons y ys)
  show ?case
  proof (cases n)
    case 0
    then show ?thesis by simp
  next
    case (Suc m)
    with Cons.prems have "ys ! m \<noteq> y" "distinct ys" "m < length ys"
      by (auto simp: in_set_conv_nth)
    with Cons.IH [of m] Suc show ?thesis by simp
  qed
qed

lemma length_base64_alphabet: "length base64_alphabet = 64"
  by (simp add: base64_alphabet_def)

lemma distinct_base64_alphabet: "distinct base64_alphabet"
  by (simp add: base64_alphabet_def)

lemma pad_not_in_alphabet: "CHR ''='' \<notin> set base64_alphabet"
  by (simp add: base64_alphabet_def)

lemma dec6_enc6: "n < 64 \<Longrightarrow> dec6 (enc6 n) = Some n"
  by (simp add: dec6_def enc6_def index_of_nth distinct_base64_alphabet length_base64_alphabet)

lemma enc6_not_pad: "n < 64 \<Longrightarrow> enc6 n \<noteq> CHR ''=''"
proof
  assume "n < 64" and "enc6 n = CHR ''=''"
  then have "CHR ''='' \<in> set base64_alphabet"
    using nth_mem [of n base64_alphabet] by (simp add: enc6_def length_base64_alphabet)
  with pad_not_in_alphabet show False by simp
qed

lemma unat_byte_less: "unat (a :: byte) < 256"
  using unsigned_less [of a] by simp

lemma div_mod_parts:
  fixes p q :: nat
  shows "q < 16 \<Longrightarrow> (p * 16 + q) div 16 = p"
    and "q < 16 \<Longrightarrow> (p * 16 + q) mod 16 = q"
    and "q < 4 \<Longrightarrow> (p * 4 + q) div 4 = p"
    and "q < 4 \<Longrightarrow> (p * 4 + q) mod 4 = q"
  by simp_all

lemma byte_parts:
  fixes x :: nat
  assumes "x < 256"
  shows "x div 4 < 64" "x div 16 < 16" "x div 64 < 4" "x mod 4 * 16 < 64" "x mod 16 * 4 < 64"
    "x mod 64 < 64"
  using assms by simp_all

lemma sextet2_less: "y < 256 \<Longrightarrow> x mod 4 * 16 + y div 16 < (64::nat)"
proof -
  assume "y < 256"
  then have "y div 16 < 16" by simp
  moreover have "x mod 4 < 4" by simp
  ultimately show ?thesis by linarith
qed

lemma sextet3_less: "y < 256 \<Longrightarrow> x mod 16 * 4 + y div 64 < (64::nat)"
proof -
  assume "y < 256"
  then have "y div 64 < 4" by simp
  moreover have "x mod 16 < 16" by simp
  ultimately show ?thesis by linarith
qed

lemmas sextet_less =
  byte_parts [OF unat_byte_less] sextet2_less [OF unat_byte_less] sextet3_less [OF unat_byte_less]

lemma first_byte: "of_nat (unat a div 4 * 4 + (unat a mod 4 * 16 + unat b div 16) div 16) = a"
  for a b :: byte
  by (simp add: div_mod_parts byte_parts [OF unat_byte_less])

lemma first_byte_alone: "of_nat (unat a div 4 * 4 + unat a mod 4 * 16 div 16) = a"
  for a :: byte
  by simp

lemma second_byte:
  "of_nat ((unat a mod 4 * 16 + unat b div 16) mod 16 * 16 + (unat b mod 16 * 4 + unat c div 64) div 4) = b"
  for a b c :: byte
  by (simp add: div_mod_parts byte_parts [OF unat_byte_less])

lemma second_byte_alone:
  "of_nat ((unat a mod 4 * 16 + unat b div 16) mod 16 * 16 + unat b mod 16 * 4 div 4) = b"
  for a b :: byte
  by (simp add: div_mod_parts byte_parts [OF unat_byte_less])

lemma third_byte:
  "of_nat ((unat b mod 16 * 4 + unat c div 64) mod 4 * 64 + unat c mod 64) = c"
  for b c :: byte
  by (simp add: div_mod_parts byte_parts [OF unat_byte_less])

lemma base64_eq_Nil: "base64 bs = [] \<longleftrightarrow> bs = []"
  by (induction bs rule: base64.induct) simp_all

lemma decode_group_enc:
  fixes a b c :: byte
  shows "decode_group (enc6 (unat a div 4)) (enc6 (unat a mod 4 * 16 + unat b div 16))
           (enc6 (unat b mod 16 * 4 + unat c div 64)) (enc6 (unat c mod 64)) = Some [a, b, c]"
  by (simp add: decode_group_def dec6_enc6 sextet_less first_byte second_byte third_byte)

text \<open>Decoding the encoder's text gives the bytes back.\<close>

lemma base64_roundtrip: "base64_decode (base64 bs) = Some bs"
proof (induction bs rule: base64.induct)
  case 1
  then show ?case by simp
next
  case (2 a)
  then show ?case
    by (simp add: decode_last_def dec6_enc6 sextet_less first_byte_alone)
next
  case (3 a b)
  then show ?case
    by (simp add: decode_last_def dec6_enc6 sextet_less first_byte second_byte_alone enc6_not_pad)
next
  case (4 a b c rest)
  then show ?case
    by (simp add: decode_last_def decode_group_enc base64_eq_Nil enc6_not_pad sextet_less)
qed

subsection \<open>Traces and URLs\<close>

lemmas action_simps = try_catch_def finish_def Let_def parseStringify_def

lemma is_fetch_simps [simp]:
  "is_fetch (Fetch r)" "\<not> is_fetch (AuthHeaders b)" "\<not> is_fetch (RevalidatePath p)"
  "\<not> is_fetch ConsoleError"
  by (simp_all add: is_fetch_def)

lemma is_revalidate_simps [simp]:
  "is_revalidate (RevalidatePath p)" "\<not> is_revalidate (AuthHeaders b)" "\<not> is_revalidate (Fetch r)"
  "\<not> is_revalidate ConsoleError"
  by (simp_all add: is_revalidate_def)

lemma searchParams_append_param [simp]:
  "searchParams (append_param u k v) = searchParams u @ [(k, v)]"
  "href (append_param u k v) = href u"
  by (simp_all add: append_param_def)

lemma searchParams_foldl:
  "searchParams (foldl (\<lambda>u (key, v). append_param u (f key) v) u kvs) =
     searchParams u @ map (\<lambda>(key, v). (f key, v)) kvs"
  by (induction kvs arbitrary: u) (auto simp: append_param_def)

lemma href_foldl:
  "href (foldl (\<lambda>u (key, v). append_param u (f key) v) u kvs) = href u"
  by (induction kvs arbitrary: u) (auto simp: append_param_def)

lemma searchParams_getScans_url:
  "searchParams (getScans_url rt page query sortBy filters pageSize flds incl) =
     (if truthy_num page then [(''page[number]'', num_toString page)] else []) @
     (if truthy_num pageSize then [(''page[size]'', num_toString pageSize)] else []) @
     (if query \<noteq> [] then [(''filter[search]'', query)] else []) @
     (if sortBy \<noteq> [] then [(''sort'', sortBy)] else []) @
     (if incl \<noteq> [] then [(''include'', incl)] else []) @
     map (\<lambda>(key, v). (''fields['' @ key @ '']'', v)) flds @
     filters"
proof -
  have id: "(\<lambda>u (key, v). append_param u key v) = (\<lambda>u (key, v). append_param u ((\<lambda>k. k) key) v)"
    by simp
  have "map (\<lambda>(key, v). (key, v)) filters = filters"
    by (induction filters) auto
  then show ?thesis
    unfolding getScans_url_def Let_def
    by (subst id) (simp add: searchParams_foldl new_URL_def)
qed

subsection \<open>What the actions can return\<close>

lemma is_artifact_result_simps [simp]:
  "is_artifact_result (Returned (ReadyObj d f))"
  "is_artifact_result (Returned (PendingObj s t))"
  "is_artifact_result (Returned (ErrorObj m))"
  by (simp_all add: is_artifact_result_def)

lemma getExportsZip_shape: "is_artifact_result (snd (getExportsZip rt scanId))"
  by (simp add: getExportsZip_def action_simps split: fetch_result.split sum.split)

lemma getComplianceCsv_shape: "is_artifact_result (snd (getComplianceCsv rt scanId complianceId))"
  by (simp add: getComplianceCsv_def action_simps split: fetch_result.split sum.split)



subsection \<open>The claims\<close>

text \<open>
  C1. The claim is that a response that is neither 2xx nor 202 and whose body is
  \<^verbatim>\<open>{"errors":[{"detail":"not found"}]}\<close> fails with the message ``not found''.
  Both artifact actions read \<^verbatim>\<open>errorData?.errors?.detail\<close>; on this body
  \<^verbatim>\<open>errors\<close> is an array, which has no such property, so the detail is lost and
  the fixed message is returned. (\<open>scanOnDemand\<close> reads \<^verbatim>\<open>errors[0].detail\<close>.)
\<close>

theorem artifact_error_detail_not_extracted:
  "getExportsZip (example_runtime (Resolved (example_response 404 ''Not Found'' not_found_body))) ''scan1'' =
     ([AuthHeaders False,
       Fetch (getExportsZip_request
                (example_runtime (Resolved (example_response 404 ''Not Found'' not_found_body))) ''scan1'')],
      Returned (ErrorObj ''Unable to fetch scan report. Contact support if the issue continues.''))
   \<and> getComplianceCsv (example_runtime (Resolved (example_response 404 ''Not Found'' not_found_body)))
       ''scan1'' ''cis_2.0_aws'' =
     ([AuthHeaders False,
       Fetch (getComplianceCsv_request
                (example_runtime (Resolved (example_response 404 ''Not Found'' not_found_body)))
                ''scan1'' ''cis_2.0_aws'')],
      Returned (ErrorObj
        ''Unable to retrieve compliance report. Contact support if the issue continues.''))"
  by (simp add: getExportsZip_def getComplianceCsv_def action_simps ok_def example_runtime_def
      example_response_def not_found_body_def opt_member_def message_or_def)

text \<open>
  C2. The claim is that \<open>updateScan\<close> emits one \<^verbatim>\<open>revalidatePath("/scans")\<close> after
  a successful call and none after a failed one. \<open>updateScan\<close> does not look at
  \<^verbatim>\<open>response.ok\<close>: a 400 response with a JSON body is parsed, the path is
  revalidated, and the error document is returned as data.
\<close>

theorem updateScan_revalidates_on_error_response:
  "\<not> ok (example_response 400 ''Bad Request'' bad_request_body)
   \<and> updateScan (example_runtime (Resolved (example_response 400 ''Bad Request'' bad_request_body)))
       example_form =
     ([AuthHeaders True,
       Fetch (updateScan_request
                (example_runtime (Resolved (example_response 400 ''Bad Request'' bad_request_body)))
                example_form),
       RevalidatePath ''/scans''],
      Returned (Data bad_request_body))"
  by (simp add: updateScan_def action_simps ok_def example_runtime_def example_response_def)

text \<open>
  What \<open>updateScan\<close> does in general: one notification, after the fetch, whenever the
  response has a body that parses, whatever its status; none when the fetch or the parse
  throws.
\<close>

lemma updateScan_parsed_response:
  assumes "fetch rt (updateScan_request rt fd) = Resolved resp"
    and "json_result resp = Inr data"
  shows "updateScan rt fd =
           ([AuthHeaders True, Fetch (updateScan_request rt fd), RevalidatePath ''/scans''],
            Returned (Data data))"
  using assms by (simp add: updateScan_def action_simps)

lemma updateScan_thrown:
  assumes "fetch rt (updateScan_request rt fd) = Rejected e
           \<or> (\<exists>resp. fetch rt (updateScan_request rt fd) = Resolved resp \<and> json_result resp = Inl e)"
  shows "updateScan rt fd =
           ([AuthHeaders True, Fetch (updateScan_request rt fd), ConsoleError],
            Returned (ErrorObj (getErrorMessage e)))"
  using assms by (auto simp: updateScan_def action_simps)




text \<open>
  C4, as stated, has one rule for the error of every mutation. For the same 400 response
  \<open>scanOnDemand\<close> returns \<^verbatim>\<open>{ success: false, error: "bad" }\<close>, the detail of the
  body, and \<open>scheduleDaily\<close> returns \<^verbatim>\<open>{ error: "Failed to schedule daily: Bad Request" }\<close>,
  made from the status text.
\<close>

theorem mutation_errors_not_uniform:
  "snd (scanOnDemand (example_runtime (Resolved (example_response 400 ''Bad Request'' bad_request_body)))
          example_form) = Returned (FailureObj (Some (JStr ''bad'')))
   \<and> snd (scheduleDaily (example_runtime (Resolved (example_response 400 ''Bad Request'' bad_request_body)))
          example_form) = Returned (ErrorObj ''Failed to schedule daily: Bad Request'')
   \<and> snd (scanOnDemand (example_runtime (Resolved (example_response 400 ''Bad Request'' bad_request_body)))
          example_form)
     \<noteq> snd (scheduleDaily (example_runtime (Resolved (example_response 400 ''Bad Request'' bad_request_body)))
          example_form)"
  by (simp add: scanOnDemand_def scheduleDaily_def action_simps ok_def example_runtime_def
      example_response_def bad_request_body_def example_form_def formData_get_def truthy_str_def
      member_def member0_def)

text \<open>
  C4, amended. For a response that is not ok, \<open>scheduleDaily\<close> logs and returns the
  object with the error ``Failed to schedule daily: '' followed by the status text, and
  does not read the body; \<open>scanOnDemand\<close> (given a provider), on a body of the shape
  \<^verbatim>\<open>{"errors":[{...}, ...]}\<close>, returns \<^verbatim>\<open>{ success: false, error }\<close> with the
  \<^verbatim>\<open>detail\<close> of the first error (\<^verbatim>\<open>undefined\<close> when it has none), and whatever the
  body it does not revalidate the path.
\<close>

theorem mutation_error_shapes:
  assumes "\<not> ok resp"
  shows "(fetch rt (scheduleDaily_request rt fd) = Resolved resp \<longrightarrow>
            scheduleDaily rt fd =
              ([AuthHeaders True, Fetch (scheduleDaily_request rt fd), ConsoleError],
               Returned (ErrorObj (''Failed to schedule daily: '' @ statusText resp))))
       \<and> (truthy_str (formData_get fd ''providerId'')
            \<and> fetch rt (scanOnDemand_request rt fd) = Resolved resp
            \<and> json_result resp = Inr (JObj body)
            \<and> map_of body ''errors'' = Some (JArr (JObj first # others)) \<longrightarrow>
            scanOnDemand rt fd =
              ([AuthHeaders True, Fetch (scanOnDemand_request rt fd)],
               Returned (FailureObj (map_of first ''detail''))))
       \<and> (fetch rt (scanOnDemand_request rt fd) = Resolved resp \<longrightarrow>
            filter is_revalidate (fst (scanOnDemand rt fd)) = [])"
proof (intro conjI impI)
  assume "fetch rt (scheduleDaily_request rt fd) = Resolved resp"
  with assms show "scheduleDaily rt fd =
      ([AuthHeaders True, Fetch (scheduleDaily_request rt fd), ConsoleError],
       Returned (ErrorObj (''Failed to schedule daily: '' @ statusText resp)))"
    by (simp add: scheduleDaily_def action_simps)
next
  assume "truthy_str (formData_get fd ''providerId'')
            \<and> fetch rt (scanOnDemand_request rt fd) = Resolved resp
            \<and> json_result resp = Inr (JObj body)
            \<and> map_of body ''errors'' = Some (JArr (JObj first # others))"
  with assms show "scanOnDemand rt fd =
      ([AuthHeaders True, Fetch (scanOnDemand_request rt fd)],
       Returned (FailureObj (map_of first ''detail'')))"
    by (simp add: scanOnDemand_def action_simps member_def member0_def)
next
  assume "fetch rt (scanOnDemand_request rt fd) = Resolved resp"
  with assms show "filter is_revalidate (fst (scanOnDemand rt fd)) = []"
    by (simp add: scanOnDemand_def action_simps split: sum.split)
qed

theorem mutation_error_shapes_witness:
  "\<not> ok (example_response 400 ''Bad Request'' bad_request_body)
   \<and> scheduleDaily (example_runtime (Resolved (example_response 400 ''Bad Request'' bad_request_body)))
       example_form =
      ([AuthHeaders True,
        Fetch (scheduleDaily_request
          (example_runtime (Resolved (example_response 400 ''Bad Request'' bad_request_body))) example_form),
        ConsoleError],
       Returned (ErrorObj ''Failed to schedule daily: Bad Request''))
   \<and> scanOnDemand (example_runtime (Resolved (example_response 400 ''Bad Request'' bad_request_body)))
       example_form =
      ([AuthHeaders True,
        Fetch (scanOnDemand_request
          (example_runtime (Resolved (example_response 400 ''Bad Request'' bad_request_body))) example_form)],
       Returned (FailureObj (Some (JStr ''bad''))))
   \<and> filter is_revalidate
       (fst (scanOnDemand (example_runtime (Resolved (example_response 400 ''Bad Request'' bad_request_body)))
          example_form)) = []"
  using mutation_error_shapes
    [of "example_response 400 ''Bad Request'' bad_request_body"
        "example_runtime (Resolved (example_response 400 ''Bad Request'' bad_request_body))"
        example_form "[(''errors'', JArr [JObj [(''detail'', JStr ''bad'')]])]"
        "[(''detail'', JStr ''bad'')]" "[]"]
  by (simp add: ok_def example_runtime_def example_response_def bad_request_body_def
      example_form_def formData_get_def truthy_str_def)

text \<open>
  C5, as stated, has every pending result carry a task identifier and a state that are
  strings. A 202 response with the body \<^verbatim>\<open>{}\<close> gives the pending object with both
  properties \<^verbatim>\<open>undefined\<close>.
\<close>

theorem pending_without_task_handle:
  "getExportsZip (example_runtime (Resolved (example_response 202 ''Accepted'' (JObj [])))) ''scan1'' =
     ([AuthHeaders False,
       Fetch (getExportsZip_request
                (example_runtime (Resolved (example_response 202 ''Accepted'' (JObj [])))) ''scan1'')],
      Returned (PendingObj None None))
   \<and> is_string None = False"
  by (simp add: getExportsZip_def action_simps example_runtime_def example_response_def
      opt_member_def is_string_def)

text \<open>
  C5, amended. What an artifact action returns is always one of the three objects:
  ready (data and file name), pending, or failed (a message). On a 202 response whose
  body parses, it is the pending object with \<^verbatim>\<open>state = json?.data?.attributes?.state\<close>
  and \<^verbatim>\<open>taskId = json?.data?.id\<close>: the values found in the body, \<^verbatim>\<open>undefined\<close> where
  the body has none. On a 202 response whose body does not parse it is the failed object.
\<close>

theorem artifact_result_shapes:
  "is_artifact_result (snd (getExportsZip rt scanId))
   \<and> is_artifact_result (snd (getComplianceCsv rt scanId complianceId))
   \<and> (fetch rt (getExportsZip_request rt scanId) = Resolved resp \<and> status resp = 202 \<longrightarrow>
        snd (getExportsZip rt scanId) =
          Returned (case json_result resp of
             Inl e \<Rightarrow> ErrorObj (getErrorMessage e)
           | Inr j \<Rightarrow> PendingObj
               (opt_member (opt_member (opt_member (Some j) ''data'') ''attributes'') ''state'')
               (opt_member (opt_member (Some j) ''data'') ''id'')))
   \<and> (fetch rt (getComplianceCsv_request rt scanId complianceId) = Resolved resp \<and> status resp = 202 \<longrightarrow>
        snd (getComplianceCsv rt scanId complianceId) =
          Returned (case json_result resp of
             Inl e \<Rightarrow> ErrorObj (getErrorMessage e)
           | Inr j \<Rightarrow> PendingObj
               (opt_member (opt_member (opt_member (Some j) ''data'') ''attributes'') ''state'')
               (opt_member (opt_member (Some j) ''data'') ''id'')))"
proof -
  have "snd (getExportsZip rt scanId) =
          Returned (case json_result resp of
             Inl e \<Rightarrow> ErrorObj (getErrorMessage e)
           | Inr j \<Rightarrow> PendingObj
               (opt_member (opt_member (opt_member (Some j) ''data'') ''attributes'') ''state'')
               (opt_member (opt_member (Some j) ''data'') ''id''))"
    if "fetch rt (getExportsZip_request rt scanId) = Resolved resp" "status resp = 202"
    using that by (simp add: getExportsZip_def action_simps split: sum.split)
  moreover have "snd (getComplianceCsv rt scanId complianceId) =
          Returned (case json_result resp of
             Inl e \<Rightarrow> ErrorObj (getErrorMessage e)
           | Inr j \<Rightarrow> PendingObj
               (opt_member (opt_member (opt_member (Some j) ''data'') ''attributes'') ''state'')
               (opt_member (opt_member (Some j) ''data'') ''id''))"
    if "fetch rt (getComplianceCsv_request rt scanId complianceId) = Resolved resp" "status resp = 202"
    using that by (simp add: getComplianceCsv_def action_simps split: sum.split)
  ultimately show ?thesis
    using getExportsZip_shape [of rt scanId] getComplianceCsv_shape [of rt scanId complianceId]
    by blast
qed

theorem artifact_result_shapes_witness:
  "snd (getExportsZip (example_runtime (Resolved (example_response 202 ''Accepted'' task_body))) ''scan1'') =
     Returned (PendingObj (Some (JStr ''running'')) (Some (JStr ''t1'')))
   \<and> snd (getComplianceCsv (example_runtime (Resolved (example_response 202 ''Accepted'' task_body)))
        ''scan1'' ''cis_2.0_aws'') =
     Returned (PendingObj (Some (JStr ''running'')) (Some (JStr ''t1'')))"
  using artifact_result_shapes
    [of "example_runtime (Resolved (example_response 202 ''Accepted'' task_body))" "''scan1''"
        "''cis_2.0_aws''" "example_response 202 ''Accepted'' task_body"]
  by (simp add: example_runtime_def example_response_def task_body_def opt_member_def)

text \<open>
  C6, as stated, promises that no key is emitted with an empty value. The entries of
  \<^verbatim>\<open>filters\<close> (and of \<^verbatim>\<open>fields\<close>) are appended whatever their value: the
  filter \<^verbatim>\<open>{"filter[state]": ""}\<close> is sent as a key with an empty value.
\<close>

theorem getScans_emits_empty_filter_value:
  "searchParams (req_url (getScans_request
       (example_runtime (Resolved (example_response 200 ''OK'' (JObj []))))
       (no_args\<lparr>filters_arg := Some [(''filter[state]'', [])]\<rparr>))) =
     [(''page[number]'', ''1''), (''page[size]'', ''10''), (''filter[state]'', [])]
   \<and> take 2 (fst (getScans
       (example_runtime (Resolved (example_response 200 ''OK'' (JObj []))))
       (no_args\<lparr>filters_arg := Some [(''filter[state]'', [])]\<rparr>))) =
     [AuthHeaders False,
      Fetch (getScans_request
       (example_runtime (Resolved (example_response 200 ''OK'' (JObj []))))
       (no_args\<lparr>filters_arg := Some [(''filter[state]'', [])]\<rparr>))]"
  by (simp add: getScans_request_def searchParams_getScans_url no_args_def default_to_def
      truthy_num_def num_toString_def show_nat.simps getScans_def action_simps isNaN_def
      less_than_1_def example_runtime_def example_response_def)

text \<open>
  C6, amended. For a page of at least 1 and a page size other than 0 (absent ones are 1
  and 10), the URL that \<open>getScans\<close> fetches has these parameters, in this order:
  \<^verbatim>\<open>page[number]\<close>, \<^verbatim>\<open>page[size]\<close>, then \<^verbatim>\<open>filter[search]\<close>, \<^verbatim>\<open>sort\<close> and
  \<^verbatim>\<open>include\<close>, each only when its argument is present and not the empty string,
  then one \<^verbatim>\<open>fields[key]\<close> for every entry of \<^verbatim>\<open>fields\<close>, then every entry of
  \<^verbatim>\<open>filters\<close> under its own key. The entries of the two mappings are emitted with
  whatever value they have, the empty string too.
\<close>

theorem getScans_query_order:
  assumes "default_to (Num 1) (page_arg args) = Num p"
    and "1 \<le> p"
    and "default_to (Num 10) (pageSize_arg args) = Num s"
    and "s \<noteq> 0"
  shows "searchParams (req_url (getScans_request rt args)) =
           [(''page[number]'', num_toString (Num p)), (''page[size]'', num_toString (Num s))] @
           (if default_to [] (query_arg args) = [] then []
            else [(''filter[search]'', default_to [] (query_arg args))]) @
           (if default_to [] (sort_arg args) = [] then []
            else [(''sort'', default_to [] (sort_arg args))]) @
           (if default_to [] (include_arg args) = [] then []
            else [(''include'', default_to [] (include_arg args))]) @
           map (\<lambda>(key, v). (''fields['' @ key @ '']'', v)) (default_to [] (fields_arg args)) @
           default_to [] (filters_arg args)
         \<and> take 2 (fst (getScans rt args)) = [AuthHeaders False, Fetch (getScans_request rt args)]"
proof -
  have "take 2 (fst (getScans rt args)) = [AuthHeaders False, Fetch (getScans_request rt args)]"
    using assms(1,2)
    by (simp add: getScans_def action_simps isNaN_def less_than_1_def
        split: fetch_result.split sum.split)
  moreover have "truthy_num (Num p)" "truthy_num (Num s)"
    using assms(2,4) by (simp_all add: truthy_num_def)
  ultimately show ?thesis
    using assms(1,3) by (simp add: getScans_request_def searchParams_getScans_url)
qed

theorem getScans_query_order_witness:
  "searchParams (req_url (getScans_request
       (example_runtime (Resolved (example_response 200 ''OK'' (JObj []))))
       \<lparr>page_arg = Some (Num 2), query_arg = Some ''aws'', sort_arg = Some [],
        filters_arg = Some [(''filter[state]'', ''completed'')], pageSize_arg = None,
        fields_arg = Some [(''scans'', ''name,state'')], include_arg = None\<rparr>)) =
     [(''page[number]'', ''2''), (''page[size]'', ''10''), (''filter[search]'', ''aws''),
      (''fields[scans]'', ''name,state''), (''filter[state]'', ''completed'')]"
  using getScans_query_order
    [of "\<lparr>page_arg = Some (Num 2), query_arg = Some ''aws'', sort_arg = Some [],
        filters_arg = Some [(''filter[state]'', ''completed'')], pageSize_arg = None,
        fields_arg = Some [(''scans'', ''name,state'')], include_arg = None\<rparr>" 2 10
        "example_runtime (Resolved (example_response 200 ''OK'' (JObj [])))"]
  by (simp add: default_to_def num_toString_def show_nat.simps)

text \<open>
  C7. When the report request is answered with status 200 and the body \<open>b\<close>,
  \<open>getExportsZip\<close> returns the ready object whose data is the Base64 text of \<open>b\<close> and
  whose file name is \<^verbatim>\<open>scan-<scanId>-report.zip\<close>, and decoding the data gives \<open>b\<close>
  back.
\<close>

theorem getExportsZip_ready_roundtrip:
  assumes "fetch rt (getExportsZip_request rt scanId) = Resolved resp"
    and "status resp = 200"
    and "arrayBuffer_result resp = Inr b"
  shows "getExportsZip rt scanId =
           ([AuthHeaders False, Fetch (getExportsZip_request rt scanId)],
            Returned (ReadyObj (base64 b) (''scan-'' @ scanId @ ''-report.zip'')))
         \<and> base64_decode (base64 b) = Some b"
  using assms by (simp add: getExportsZip_def action_simps ok_def base64_roundtrip)

theorem getExportsZip_ready_roundtrip_witness:
  "getExportsZip
     (example_runtime (Resolved
        \<lparr>status = 200, statusText = ''OK'', json_result = Inl (SyntaxError ''Unexpected token''),
         arrayBuffer_result = Inr [80, 75, 3, 4]\<rparr>)) ''scan1'' =
     ([AuthHeaders False,
       Fetch \<lparr>req_url = \<lparr>href = ''https://api.example.test/api/v1/scans/scan1/report'', searchParams = []\<rparr>,
              req_method = ''GET'', req_headers = [(''Accept'', ''application/vnd.api+json'')],
              req_body = None\<rparr>],
      Returned (ReadyObj ''UEsDBA=='' ''scan-scan1-report.zip''))
   \<and> base64_decode ''UEsDBA=='' = Some [80, 75, 3, 4]"
  using getExportsZip_ready_roundtrip
    [of "example_runtime (Resolved
        \<lparr>status = 200, statusText = ''OK'', json_result = Inl (SyntaxError ''Unexpected token''),
         arrayBuffer_result = Inr [80, 75, 3, 4]\<rparr>)" "''scan1''"
        "\<lparr>status = 200, statusText = ''OK'', json_result = Inl (SyntaxError ''Unexpected token''),
         arrayBuffer_result = Inr [80, 75, 3, 4]\<rparr>" "[80, 75, 3, 4]"]
  by (simp add: example_runtime_def getExportsZip_request_def new_URL_def enc6_def base64_alphabet_def)

text \<open>
  C8. When the page is \<^verbatim>\<open>NaN\<close> or less than 1, \<open>getScans\<close> does not return: it
  transfers control to \<^verbatim>\<open>redirect("/scans")\<close>, after the headers were built and
  before any call of the transport.
\<close>

theorem getScans_invalid_page_redirects:
  assumes "page_arg args = Some p"
    and "p = NaN \<or> (\<exists>n. p = Num n \<and> n < 1)"
  shows "getScans rt args = ([AuthHeaders False], Redirected ''/scans'')
         \<and> filter is_fetch (fst (getScans rt args)) = []"
  using assms
  by (auto simp: getScans_def Let_def default_to_def isNaN_def less_than_1_def)

theorem getScans_invalid_page_redirects_witness:
  "getScans (example_runtime (Resolved (example_response 200 ''OK'' (JObj []))))
     (no_args\<lparr>page_arg := Some (Num 0)\<rparr>) = ([AuthHeaders False], Redirected ''/scans'')
   \<and> filter is_fetch (fst (getScans (example_runtime (Resolved (example_response 200 ''OK'' (JObj []))))
     (no_args\<lparr>page_arg := Some (Num 0)\<rparr>))) = []"
  using getScans_invalid_page_redirects
    [of "no_args\<lparr>page_arg := Some (Num 0)\<rparr>" "Num 0"
        "example_runtime (Resolved (example_response 200 ''OK'' (JObj [])))"]
  by (simp add: no_args_def)

text \<open>
  C9. When the form supplies no provider identifier (\<^verbatim>\<open>get\<close> gives \<^verbatim>\<open>null\<close> or the
  empty string), \<open>scanOnDemand\<close> returns the object with the error
  ``Provider ID is required'', and the only collaborator it has called is the one for
  the headers: the transport is not invoked.
\<close>

theorem scanOnDemand_requires_provider:
  assumes "formData_get fd ''providerId'' = None \<or> formData_get fd ''providerId'' = Some []"
  shows "scanOnDemand rt fd = ([AuthHeaders True], Returned (ErrorObj ''Provider ID is required''))
         \<and> filter is_fetch (fst (scanOnDemand rt fd)) = []"
  using assms by (auto simp: scanOnDemand_def truthy_str_def Let_def)

theorem scanOnDemand_requires_provider_witness:
  "formData_get [(''scanName'', ''nightly'')] ''providerId'' = None \<and>
   scanOnDemand (example_runtime (Rejected (TypeError ''fetch failed''))) [(''scanName'', ''nightly'')] =
     ([AuthHeaders True], Returned (ErrorObj ''Provider ID is required'')) \<and>
   filter is_fetch
     (fst (scanOnDemand (example_runtime (Rejected (TypeError ''fetch failed'')))
        [(''scanName'', ''nightly'')])) = []"
  using scanOnDemand_requires_provider
    [of "[(''scanName'', ''nightly'')]" "example_runtime (Rejected (TypeError ''fetch failed''))"]
  by (simp add: formData_get_def)

text \<open>
  C10. \<open>getScans\<close> changes nothing on the server, and yet whenever its fetch resolves
  with a body that parses it calls \<^verbatim>\<open>revalidatePath("/scans")\<close>, once, after the fetch.
\<close>

theorem getScans_revalidates_after_fetch:
  assumes "default_to (Num 1) (page_arg args) = Num n"
    and "1 \<le> n"
    and "fetch rt (getScans_request rt args) = Resolved resp"
    and "json_result resp = Inr data"
  shows "getScans rt args =
           ([AuthHeaders False, Fetch (getScans_request rt args), RevalidatePath ''/scans''],
            Returned (Data data))"
  using assms by (simp add: getScans_def action_simps isNaN_def less_than_1_def)

theorem getScans_revalidates_after_fetch_witness:
  "getScans (example_runtime (Resolved (example_response 200 ''OK'' (JObj [(''data'', JArr [])])))) no_args =
     ([AuthHeaders False,
       Fetch (getScans_request
                (example_runtime (Resolved (example_response 200 ''OK'' (JObj [(''data'', JArr [])]))))
                no_args),
       RevalidatePath ''/scans''],
      Returned (Data (JObj [(''data'', JArr [])])))"
  using getScans_revalidates_after_fetch
    [of no_args 1 "example_runtime (Resolved (example_response 200 ''OK'' (JObj [(''data'', JArr [])])))"
        "example_response 200 ''OK'' (JObj [(''data'', JArr [])])" "JObj [(''data'', JArr [])]"]
  by (simp add: no_args_def default_to_def example_runtime_def example_response_def)

end
